theory Spec2Isabelle
  imports Main
begin

section \<open>String operations of the Python runtime\<close>

text \<open>
  Strings are \<^typ>\<open>string\<close>: a Python string is the list of the bytes of its UTF-8
  encoding, so an ASCII string is one whose characters are all below 128. \<open>lower\<close> is
  \<open>str.lower\<close> on ASCII strings, where it changes the letters \<open>A\<close> to \<open>Z\<close> and
  nothing else. On other strings \<open>str.lower\<close> follows the Unicode tables, which are not
  modelled: a statement about \<open>lower\<close> speaks for the code on ASCII strings only, or
  where the answer is shown not to depend on the rest.
\<close>

definition lower_char :: "char \<Rightarrow> char" where
  "lower_char c =
     (let n = (of_char c :: nat) in if 65 \<le> n \<and> n \<le> 90 then char_of (n + 32) else c)"

definition lower :: "string \<Rightarrow> string" where
  "lower s = map lower_char s"

text \<open>
  \<open>s.rstrip(chars)\<close>: the argument is a set of characters, and every trailing character
  of \<open>s\<close> that belongs to it is removed.
\<close>

definition rstrip :: "string \<Rightarrow> string \<Rightarrow> string" where
  "rstrip chars s = rev (dropWhile (\<lambda>c. c \<in> set chars) (rev s))"

text \<open>
  \<open>s.replace(old, new)\<close>: every occurrence of \<open>old\<close>, found from left to right without
  overlap, is replaced; an empty \<open>old\<close> matches before every character and at the end.
\<close>

function str_replace :: "string \<Rightarrow> string \<Rightarrow> string \<Rightarrow> string" where
  "str_replace old new s =
     (if old = [] then new @ concat (map (\<lambda>c. c # new) s)
      else if s = [] then []
      else if take (length old) s = old
        then new @ str_replace old new (drop (length old) s)
      else hd s # str_replace old new (tl s))"
  by pat_completeness auto
termination
  by (relation "measure (\<lambda>(old, new, s). length s)") auto

declare str_replace.simps [simp del]

text \<open>\<open>s.split(sep)\<close> for a separator of one character, and \<open>sep.join(parts)\<close>.\<close>

fun split :: "char \<Rightarrow> string \<Rightarrow> string list" where
  "split sep [] = [[]]"
| "split sep (c # cs) =
     (if c = sep then [] # split sep cs
      else (case split sep cs of
              [] \<Rightarrow> [[c]]
            | w # ws \<Rightarrow> (c # w) # ws))"

fun join :: "string \<Rightarrow> string list \<Rightarrow> string" where
  "join sep [] = []"
| "join sep [p] = p"
| "join sep (p # q # ps) = p @ sep @ join sep (q # ps)"

section \<open>Errors\<close>

text \<open>The exceptions that end a run. None is caught anywhere in the script.\<close>

datatype error =
    URLError
  | ReadError
  | ExtractError
  | OSError
  | AssertionError string
  | NameError string

section \<open>Version Resolver\<close>

text \<open>
  \<open>retrieve_latest_tag\<close> asks the GitHub API for the tag of the latest release. Its
  outcome (an exception, or the \<open>tag_name\<close> of the response) is the first argument of the
  resolver.
\<close>

definition calculate_version_and_tag ::
  "error + string \<Rightarrow> string \<Rightarrow> error + string \<times> string" where
  "calculate_version_and_tag retrieve_latest_tag version =
     (if version = ''latest'' then
        (case retrieve_latest_tag of
           Inl e \<Rightarrow> Inl e
         | Inr tag \<Rightarrow>
             (let version = str_replace ''wasi-sdk-'' [] tag;
                  version = (if CHR ''.'' \<notin> set version then version @ ''.0'' else version)
              in Inr (version, tag)))
      else
        (let stripped = rstrip ''.0'' version;
             tag = ''wasi-sdk-'' @ stripped;
             version = (if CHR ''.'' \<notin> set version then version @ ''.0'' else version)
         in Inr (version, tag)))"

text \<open>
  The tag of an explicit version as the specification words it: a trailing \<open>.0\<close> suffix
  is removed when present, the input is kept otherwise, and \<open>wasi-sdk-\<close> is put in front.
\<close>

definition spec_tag :: "string \<Rightarrow> string" where
  "spec_tag version =
     ''wasi-sdk-'' @
       (if 2 \<le> length version \<and> drop (length version - 2) version = ''.0''
        then take (length version - 2) version else version)"

text \<open>
  The invariant of a VersionSpec as the specification words it: the version has a dot, and
  the tag is \<open>wasi-sdk-\<close> followed by the version, with or without its trailing \<open>.0\<close>.
\<close>

definition spec_version_invariant :: "string \<times> string \<Rightarrow> bool" where
  "spec_version_invariant vt =
     (case vt of (version, tag) \<Rightarrow>
        CHR ''.'' \<in> set version \<and>
        (tag = ''wasi-sdk-'' @ version \<or> tag @ ''.0'' = ''wasi-sdk-'' @ version))"

section \<open>URL Builder\<close>

definition calculate_artifact_url :: "string \<Rightarrow> string \<Rightarrow> string \<Rightarrow> string \<Rightarrow> string" where
  "calculate_artifact_url version tag arch os =
     (let base = ''https://github.com/WebAssembly/wasi-sdk/releases/download'';
          os = (if os = ''Darwin'' then ''macos'' else lower os)
      in base @ ''/'' @ tag @ ''/wasi-sdk-'' @ version @ ''-'' @ arch @ ''-'' @ os @ ''.tar.gz'')"

text \<open>
  Lower case as the specification means it, by the alphabet: a capital letter becomes the
  small letter at the same place, and every other character stays.
\<close>

definition spec_lowercase :: "char \<Rightarrow> char" where
  "spec_lowercase c =
     (case map_of (zip ''ABCDEFGHIJKLMNOPQRSTUVWXYZ'' ''abcdefghijklmnopqrstuvwxyz'') c of
        None \<Rightarrow> c
      | Some l \<Rightarrow> l)"

section \<open>File system and archive\<close>

text \<open>
  The file system maps a path to what is there: a regular file with its content, or a
  directory. Paths are compared as they are written, and symbolic links are not part of
  the model. What the operating system refuses for reasons of its own (permissions) is a
  parameter of \<open>open\<close> below.
\<close>

datatype node = File string | Dir

type_synonym fs = "string \<rightharpoonup> node"

definition isfile :: "fs \<Rightarrow> string \<Rightarrow> bool" where
  "isfile fs path = (case fs path of Some (File c) \<Rightarrow> True | _ \<Rightarrow> False)"

definition isdir :: "fs \<Rightarrow> string \<Rightarrow> bool" where
  "isdir fs path = (case fs path of Some Dir \<Rightarrow> True | _ \<Rightarrow> False)"

text \<open>
  \<open>os.makedirs(path, exist_ok=True)\<close> fails on an empty path and on a regular file. The
  real call also fails when a parent of the path is a regular file; the model does not,
  and what is proved of \<open>install\<close> below is proved of the runs in which the directory was
  created.
\<close>

definition makedirs :: "string \<Rightarrow> fs \<Rightarrow> error + fs" where
  "makedirs path fs =
     (if path = [] then Inl OSError
      else (case fs path of
              Some (File c) \<Rightarrow> Inl OSError
            | _ \<Rightarrow> Inr (fs(path \<mapsto> Dir))))"

text \<open>\<open>os.unlink(path)\<close> removes a regular file and fails on anything else.\<close>

definition unlink :: "string \<Rightarrow> fs \<Rightarrow> error option \<times> fs" where
  "unlink path fs =
     (case fs path of
        Some (File c) \<Rightarrow> (None, fs(path := None))
      | _ \<Rightarrow> (Some OSError, fs))"

text \<open>
  \<open>os.path.dirname(path)\<close>: the path up to its last slash, without trailing slashes;
  and \<open>os.path.basename(path)\<close>: what follows the last slash.
\<close>

definition dirname :: "string \<Rightarrow> string" where
  "dirname path =
     (let head = rev (dropWhile (\<lambda>c. c \<noteq> CHR ''/'') (rev path))
      in if head \<noteq> [] \<and> filter (\<lambda>c. c \<noteq> CHR ''/'') head \<noteq> []
         then rstrip ''/'' head else head)"

definition basename :: "string \<Rightarrow> string" where
  "basename path = rev (takeWhile (\<lambda>c. c \<noteq> CHR ''/'') (rev path))"

text \<open>
  \<open>open(path, 'a')\<close>. It fails where the operating system refuses the path for a reason
  outside this model (permissions and the like: the first argument), on a path that is
  empty, ends in a slash or names \<open>.\<close> or \<open>..\<close>, on a directory, and on an absent path
  whose parent is not a directory (a path without a slash lies in the current directory,
  which is there). Otherwise it
  succeeds, and creates the file when it is absent. \<open>f.write(s)\<close> on the file so opened
  puts the text after the content already there.
\<close>

definition open_append :: "(string \<Rightarrow> bool) \<Rightarrow> string \<Rightarrow> fs \<Rightarrow> error + fs" where
  "open_append refused path fs =
     (if refused path \<or> basename path \<in> set [[], ''.'', ''..''] then Inl OSError
      else (case fs path of
              Some Dir \<Rightarrow> Inl OSError
            | Some (File c) \<Rightarrow> Inr fs
            | None \<Rightarrow>
                if dirname path = [] \<or> isdir fs (dirname path)
                then Inr (fs(path \<mapsto> File [])) else Inl OSError))"

definition opens :: "(string \<Rightarrow> bool) \<Rightarrow> fs \<Rightarrow> string \<Rightarrow> bool" where
  "opens refused fs path = (case open_append refused path fs of Inl e \<Rightarrow> False | Inr fs' \<Rightarrow> True)"

definition file_write :: "string \<Rightarrow> string \<Rightarrow> fs \<Rightarrow> fs" where
  "file_write path s fs =
     (case fs path of
        Some (File c) \<Rightarrow> fs(path \<mapsto> File (c @ s))
      | _ \<Rightarrow> fs(path \<mapsto> File s))"

text \<open>A member of the archive: its name, and the file or directory it stands for.\<close>

record member =
  name :: string
  entry :: node

text \<open>
  What the script takes from outside itself: the answer of the release service, the
  download, the \<open>tarfile\<close> library (opening an archive and listing its members; extracting
  one member under a directory, which may fail and may leave the file system changed when
  it does), the name of the temporary file, the machine and system names of
  \<open>platform\<close>, the number of failures of the self-checks, and the paths the operating
  system refuses to open.
\<close>

record externals =
  latest_tag :: "error + string"
  urlretrieve :: "string \<Rightarrow> error + string"
  tar_open :: "string \<Rightarrow> error + member list"
  tar_extract :: "member \<Rightarrow> string \<Rightarrow> fs \<Rightarrow> error option \<times> fs"
  tmp_name :: string
  machine :: string
  system :: string
  doctest_failures :: nat
  open_refused :: "string \<Rightarrow> bool"

section \<open>Fetcher and Extractor\<close>

text \<open>The loop over \<open>tar.getmembers()\<close>. An exception of \<open>tar.extract\<close> ends it.\<close>


fun extract_members ::
  "(member \<Rightarrow> string \<Rightarrow> fs \<Rightarrow> error option \<times> fs) \<Rightarrow> string \<Rightarrow> member list \<Rightarrow> fs
     \<Rightarrow> error option \<times> fs" where
  "extract_members extract install_dir [] fs = (None, fs)"
| "extract_members extract install_dir (m # members) fs =
     (let parts = split CHR ''/'' (name m) in
      if length parts > 1 then
        (case extract (m\<lparr>name := join ''/'' (tl parts)\<rparr>) install_dir fs of
           (Some e, fs') \<Rightarrow> (Some e, fs')
         | (None, fs') \<Rightarrow> extract_members extract install_dir members fs')
      else extract_members extract install_dir members fs)"

text \<open>
  \<open>install\<close> creates the temporary file, downloads into it, creates the install
  directory, opens the temporary file (which holds the downloaded bytes then) as an
  archive, runs the loop and removes the temporary file. Nothing catches an exception on
  the way.
\<close>

definition install :: "externals \<Rightarrow> string \<Rightarrow> string \<Rightarrow> fs \<Rightarrow> error option \<times> fs" where
  "install X url install_dir fs =
     (let file = tmp_name X;
          fs = fs(file \<mapsto> File [])
      in case urlretrieve X url of
           Inl e \<Rightarrow> (Some e, fs)
         | Inr bytes \<Rightarrow>
             (let fs = fs(file \<mapsto> File bytes)
              in case makedirs install_dir fs of
                   Inl e \<Rightarrow> (Some e, fs)
                 | Inr fs \<Rightarrow>
                     (case tar_open X bytes of
                        Inl e \<Rightarrow> (Some e, fs)
                      | Inr members \<Rightarrow>
                          (case extract_members (tar_extract X) install_dir members fs of
                             (Some e, fs) \<Rightarrow> (Some e, fs)
                           | (None, fs) \<Rightarrow> unlink file fs))))"

text \<open>
  An extractor to run the model with: it writes the member's entry at the member's name
  under the directory, and refuses the members named in its first argument.
\<close>

definition plain_extract :: "string list \<Rightarrow> member \<Rightarrow> string \<Rightarrow> fs \<Rightarrow> error option \<times> fs" where
  "plain_extract refused m path fs =
     (if name m \<in> set refused then (Some ExtractError, fs)
      else (None, fs(path @ ''/'' @ name m \<mapsto> entry m)))"

text \<open>
  An outside world to run the model with: the release \<open>25.0\<close> for \<open>x86_64\<close> on Linux is
  the only download there is; its bytes open as an archive of a top directory \<open>sdk\<close> with
  \<open>bin/clang\<close> and \<open>share/wasi-sysroot\<close> in it; the extractor is the one above, and the
  temporary file is \<open>/tmp/t\<close>, and the operating system refuses no path.
\<close>

definition example_url :: string where
  "example_url =
     ''https://github.com/WebAssembly/wasi-sdk/releases/download/wasi-sdk-25/wasi-sdk-25.0-x86_64-linux.tar.gz''"

definition example_externals :: "string list \<Rightarrow> externals" where
  "example_externals refused =
     \<lparr>latest_tag = Inr ''wasi-sdk-25'',
      urlretrieve = (\<lambda>url. if url = example_url then Inr ''tgz'' else Inl URLError),
      tar_open = (\<lambda>bytes. Inr [\<lparr>name = ''sdk'', entry = Dir\<rparr>,
                                \<lparr>name = ''sdk/bin/clang'', entry = File ''elf''\<rparr>,
                                \<lparr>name = ''sdk/share/wasi-sysroot'', entry = Dir\<rparr>]),
      tar_extract = plain_extract refused,
      tmp_name = ''/tmp/t'',
      machine = ''x86_64'',
      system = ''Linux'',
      doctest_failures = 0,
      open_refused = (\<lambda>path. False)\<rparr>"

section \<open>Output Writer\<close>

text \<open>
  \<open>write_variables\<close> reads the name \<open>version\<close>, which is not one of its parameters: it is
  the global of the module, bound by the script's start-up block only. The second argument
  is that global, \<open>None\<close> when it is unbound; the first is the paths the operating system
  refuses to open. An empty path is as false as \<open>None\<close>.
\<close>

definition write_variables ::
  "(string \<Rightarrow> bool) \<Rightarrow> string option \<Rightarrow> string \<Rightarrow> string option \<Rightarrow> string option \<Rightarrow> fs
     \<Rightarrow> error option \<times> fs" where
  "write_variables refused version install_dir output_file env_file fs =
     (let clang_path = install_dir @ ''/bin/clang'' in
      if \<not> isfile fs clang_path
      then (Some (AssertionError (''clang not found at '' @ clang_path)), fs)
      else
     (let sysroot_path = install_dir @ ''/share/wasi-sysroot'' in
      if \<not> isdir fs sysroot_path
      then (Some (AssertionError (''sysroot not found at '' @ sysroot_path)), fs)
      else
     (case
        (case output_file of
           None \<Rightarrow> (None, fs)
         | Some f \<Rightarrow>
             if f = [] then (None, fs)
             else (case open_append refused f fs of
                     Inl e \<Rightarrow> (Some e, fs)
                   | Inr fs \<Rightarrow>
                       (let fs = file_write f (''wasi-sdk-path='' @ install_dir @ ''\<newline>'') fs
                        in case version of
                             None \<Rightarrow> (Some (NameError ''version''), fs)
                           | Some v \<Rightarrow>
                               (let fs = file_write f (''wasi-sdk-version='' @ v @ ''\<newline>'') fs;
                                    fs = file_write f (''clang-path='' @ clang_path @ ''\<newline>'') fs;
                                    fs = file_write f (''sysroot-path='' @ sysroot_path @ ''\<newline>'') fs
                                in (None, fs)))))
      of
        (Some e, fs) \<Rightarrow> (Some e, fs)
      | (None, fs) \<Rightarrow>
          (case env_file of
             None \<Rightarrow> (None, fs)
           | Some f \<Rightarrow>
               if f = [] then (None, fs)
               else (case open_append refused f fs of
                       Inl e \<Rightarrow> (Some e, fs)
                     | Inr fs \<Rightarrow>
                         (let fs = file_write f (''WASI_SDK_PATH='' @ install_dir @ ''\<newline>'') fs
                          in case version of
                               None \<Rightarrow> (Some (NameError ''version''), fs)
                             | Some v \<Rightarrow>
                                 (let fs = file_write f (''WASI_SDK_VERSION='' @ v @ ''\<newline>'') fs;
                                      fs = file_write f (''CC='' @ clang_path @ '' --sysroot='' @
                                                     sysroot_path @ ''\<newline>'') fs;
                                      fs = file_write f (''CXX='' @ clang_path @ ''++ --sysroot='' @
                                                     sysroot_path @ ''\<newline>'') fs
                                  in (None, fs))))))))"

section \<open>The script\<close>

definition main ::
  "externals \<Rightarrow> string option \<Rightarrow> string \<Rightarrow> string \<Rightarrow> string option \<Rightarrow> string option \<Rightarrow> fs
     \<Rightarrow> error option \<times> fs" where
  "main X global_version version install_dir output_file env_file fs =
     (case calculate_version_and_tag (latest_tag X) version of
        Inl e \<Rightarrow> (Some e, fs)
      | Inr (version, tag) \<Rightarrow>
          (let url = calculate_artifact_url version tag (machine X) (system X)
           in case install X url install_dir fs of
                (Some e, fs) \<Rightarrow> (Some e, fs)
              | (None, fs) \<Rightarrow> write_variables (open_refused X) global_version install_dir output_file env_file
                                fs))"

text \<open>The command line as \<open>argparse\<close> returns it, with the defaults of the flags.\<close>

record args =
  arg_version :: string
  arg_install_dir :: string
  arg_output_file :: "string option"
  arg_env_file :: "string option"
  arg_verbose :: nat
  arg_test_only :: bool

definition default_args :: args where
  "default_args =
     \<lparr>arg_version = ''latest'', arg_install_dir = ''.'', arg_output_file = None,
      arg_env_file = None, arg_verbose = 0, arg_test_only = False\<rparr>"

text \<open>
  \<open>os.getenv(key, default)\<close>, with a default that is a string and with a default that
  may be \<open>None\<close>; and the globals the start-up block binds.
\<close>

definition getenv :: "(string \<rightharpoonup> string) \<Rightarrow> string \<Rightarrow> string \<Rightarrow> string" where
  "getenv environ key dflt = (case environ key of None \<Rightarrow> dflt | Some v \<Rightarrow> v)"

definition getenv_optional ::
  "(string \<rightharpoonup> string) \<Rightarrow> string \<Rightarrow> string option \<Rightarrow> string option" where
  "getenv_optional environ key dflt = (case environ key of None \<Rightarrow> dflt | Some v \<Rightarrow> Some v)"

record config =
  cfg_version :: string
  cfg_install_dir :: string
  cfg_add_to_path :: bool
  cfg_output_file :: "string option"
  cfg_env_file :: "string option"

definition startup :: "(string \<rightharpoonup> string) \<Rightarrow> args \<Rightarrow> config" where
  "startup environ a =
     (let version = getenv environ ''INPUT_VERSION'' (arg_version a);
          install_dir = getenv environ ''INPUT_INSTALL_DIR'' (arg_install_dir a);
          add_to_path = (lower (getenv environ ''INPUT_ADD_TO_PATH'' ''false'') = ''true'');
          output_file = (if add_to_path then getenv_optional environ ''GITHUB_PATH'' (arg_output_file a)
                         else arg_output_file a);
          env_file = (if add_to_path then getenv_optional environ ''GITHUB_ENV'' (arg_env_file a)
                      else arg_env_file a)
      in \<lparr>cfg_version = version, cfg_install_dir = install_dir, cfg_add_to_path = add_to_path,
          cfg_output_file = output_file, cfg_env_file = env_file\<rparr>)"

text \<open>
  The start-up block: it binds the global \<open>version\<close> to the configured version and, unless
  the self-checks were asked for, calls \<open>main\<close>.
\<close>

datatype outcome = Raised error | Exit nat | Done

definition script :: "externals \<Rightarrow> (string \<rightharpoonup> string) \<Rightarrow> args \<Rightarrow> fs \<Rightarrow> outcome \<times> fs" where
  "script X environ a fs =
     (let c = startup environ a in
      if arg_test_only a then
        (if doctest_failures X \<noteq> 0 then (Exit 1, fs) else (Done, fs))
      else
        (case main X (Some (cfg_version c)) (cfg_version c) (cfg_install_dir c)
                (cfg_output_file c) (cfg_env_file c) fs of
           (Some e, fs) \<Rightarrow> (Raised e, fs)
         | (None, fs) \<Rightarrow> (Done, fs)))"

section \<open>The lines the Output Writer appends\<close>

text \<open>
  The four lines of the output file and the four lines of the environment file for an
  install directory and a version, and a file system in which a text stands after the
  content of a named file (an absent or empty name changes nothing).
\<close>

definition output_lines :: "string \<Rightarrow> string \<Rightarrow> string" where
  "output_lines install_dir v =
     ''wasi-sdk-path='' @ install_dir @ ''\<newline>'' @
     ''wasi-sdk-version='' @ v @ ''\<newline>'' @
     ''clang-path='' @ install_dir @ ''/bin/clang'' @ ''\<newline>'' @
     ''sysroot-path='' @ install_dir @ ''/share/wasi-sysroot'' @ ''\<newline>''"

definition env_lines :: "string \<Rightarrow> string \<Rightarrow> string" where
  "env_lines install_dir v =
     ''WASI_SDK_PATH='' @ install_dir @ ''\<newline>'' @
     ''WASI_SDK_VERSION='' @ v @ ''\<newline>'' @
     ''CC='' @ install_dir @ ''/bin/clang'' @ '' --sysroot='' @ install_dir @
       ''/share/wasi-sysroot'' @ ''\<newline>'' @
     ''CXX='' @ install_dir @ ''/bin/clang'' @ ''++ --sysroot='' @ install_dir @
       ''/share/wasi-sysroot'' @ ''\<newline>''"

definition content :: "fs \<Rightarrow> string \<Rightarrow> string" where
  "content fs path = (case fs path of Some (File c) \<Rightarrow> c | _ \<Rightarrow> [])"

definition appended :: "string option \<Rightarrow> string \<Rightarrow> fs \<Rightarrow> fs" where
  "appended file s fs =
     (case file of
        None \<Rightarrow> fs
      | Some f \<Rightarrow> if f = [] then fs else fs(f \<mapsto> File (content fs f @ s)))"

text \<open>
  One \<open>with open(file, 'a')\<close> block of the writer as a function of the file system before
  it: nothing for an absent or empty name, the error of \<open>open\<close> when the path does not
  open, else the first line alone and a \<open>NameError\<close> when the global is unbound, and all
  the lines otherwise. It serves the proofs below.
\<close>

definition append_block ::
  "(string \<Rightarrow> bool) \<Rightarrow> string option \<Rightarrow> string option \<Rightarrow> string \<Rightarrow> (string \<Rightarrow> string) \<Rightarrow> fs
     \<Rightarrow> error option \<times> fs" where
  "append_block r version fl s1 rest fs =
     (case fl of
        None \<Rightarrow> (None, fs)
      | Some f \<Rightarrow>
          if f = [] then (None, fs)
          else if \<not> opens r fs f then (Some OSError, fs)
          else (case version of
                  None \<Rightarrow> (Some (NameError ''version''), fs(f \<mapsto> File (content fs f @ s1)))
                | Some v \<Rightarrow> (None, fs(f \<mapsto> File (content fs f @ s1 @ rest v)))))"

section \<open>Properties of the string operations\<close>

lemma lower_length: "length (lower s) = length s"
  by (simp add: lower_def)

lemma lower_Linux: "lower ''Linux'' = ''linux''"
  by code_simp

lemma split_not_Nil: "split sep s \<noteq> []"
  by (induction s) (auto split: list.splits)

lemma length_split: "1 < length (split sep s) \<longleftrightarrow> sep \<in> set s"
proof (induction s)
  case Nil
  show ?case by simp
next
  case (Cons c cs)
  obtain w ws where ws: "split sep cs = w # ws"
    using split_not_Nil [of sep cs] by (cases "split sep cs") auto
  show ?case
  proof (cases "c = sep")
    case True
    then show ?thesis using ws by simp
  next
    case False
    then show ?thesis using Cons.IH ws by auto
  qed
qed

lemma join_split: "join [sep] (split sep s) = s"
proof (induction s)
  case Nil
  show ?case by simp
next
  case (Cons c cs)
  obtain w ws where ws: "split sep cs = w # ws"
    using split_not_Nil [of sep cs] by (cases "split sep cs") auto
  show ?case
  proof (cases "c = sep")
    case True
    then show ?thesis using Cons.IH ws by simp
  next
    case False
    then show ?thesis using Cons.IH ws by (cases ws) auto
  qed
qed

lemma join_tl_split:
  "sep \<in> set s \<Longrightarrow> join [sep] (tl (split sep s)) = tl (dropWhile (\<lambda>c. c \<noteq> sep) s)"
proof (induction s)
  case Nil
  then show ?case by simp
next
  case (Cons c cs)
  obtain w ws where ws: "split sep cs = w # ws"
    using split_not_Nil [of sep cs] by (cases "split sep cs") auto
  show ?case
  proof (cases "c = sep")
    case True
    then show ?thesis using join_split [of sep cs] by simp
  next
    case False
    then show ?thesis using Cons ws by auto
  qed
qed

lemma lower_char_eq_iff:
  assumes low: "97 \<le> (of_char l :: nat)" "(of_char l :: nat) \<le> 122"
  shows "lower_char c = l \<longleftrightarrow> c = l \<or> (of_char c :: nat) + 32 = of_char l"
proof (cases "65 \<le> (of_char c :: nat) \<and> (of_char c :: nat) \<le> 90")
  case True
  then have ne: "c \<noteq> l" using low by auto
  have "lower_char c = l \<longleftrightarrow> char_of ((of_char c :: nat) + 32) = l"
    using True by (simp add: lower_char_def)
  also have "\<dots> \<longleftrightarrow> ((of_char c :: nat) + 32) mod 256 = of_char l"
    by (simp add: char_of_eq_iff take_bit_eq_mod)
  also have "\<dots> \<longleftrightarrow> (of_char c :: nat) + 32 = of_char l"
    using True by simp
  finally show ?thesis using ne by simp
next
  case False
  then have "(of_char c :: nat) + 32 \<noteq> of_char l" using low by auto
  then show ?thesis using False by (auto simp: lower_char_def)
qed


lemma upper_of_lower:
  assumes "(char_of (n - 32 :: nat) :: char) = u" "(of_char l :: nat) = n" "97 \<le> n" "n \<le> 122"
  shows "lower_char c = l \<longleftrightarrow> c = l \<or> c = u"
proof -
  have "(of_char c :: nat) + 32 = n \<longleftrightarrow> c = u"
  proof
    assume "(of_char c :: nat) + 32 = n"
    then have "char_of (of_char c :: nat) = (char_of (n - 32) :: char)"
      by (metis add_diff_cancel_right')
    then show "c = u" using assms(1) by simp
  next
    assume "c = u"
    then have "(of_char c :: nat) = (n - 32) mod 256"
      using assms(1) by (metis of_char_of)
    then show "(of_char c :: nat) + 32 = n"
      using assms(3,4) by simp
  qed
  then show ?thesis
    using lower_char_eq_iff [of l c] assms(2,3,4) by simp
qed

lemma lower_char_t: "lower_char c = CHR ''t'' \<longleftrightarrow> c = CHR ''t'' \<or> c = CHR ''T''"
proof (rule upper_of_lower)
  show "(char_of (116 - 32 :: nat) :: char) = CHR ''T''" by code_simp
  show "(of_char CHR ''t'' :: nat) = 116" by simp
qed simp_all

lemma lower_char_r: "lower_char c = CHR ''r'' \<longleftrightarrow> c = CHR ''r'' \<or> c = CHR ''R''"
proof (rule upper_of_lower)
  show "(char_of (114 - 32 :: nat) :: char) = CHR ''R''" by code_simp
  show "(of_char CHR ''r'' :: nat) = 114" by simp
qed simp_all

lemma lower_char_u: "lower_char c = CHR ''u'' \<longleftrightarrow> c = CHR ''u'' \<or> c = CHR ''U''"
proof (rule upper_of_lower)
  show "(char_of (117 - 32 :: nat) :: char) = CHR ''U''" by code_simp
  show "(of_char CHR ''u'' :: nat) = 117" by simp
qed simp_all

lemma lower_char_e: "lower_char c = CHR ''e'' \<longleftrightarrow> c = CHR ''e'' \<or> c = CHR ''E''"
proof (rule upper_of_lower)
  show "(char_of (101 - 32 :: nat) :: char) = CHR ''E''" by code_simp
  show "(of_char CHR ''e'' :: nat) = 101" by simp
qed simp_all

lemma lower_true_iff:
  "lower s = ''true'' \<longleftrightarrow>
     (\<exists>a b c e. s = [a, b, c, e] \<and> a \<in> {CHR ''t'', CHR ''T''} \<and> b \<in> {CHR ''r'', CHR ''R''} \<and>
        c \<in> {CHR ''u'', CHR ''U''} \<and> e \<in> {CHR ''e'', CHR ''E''})"
proof
  assume "lower s = ''true''"
  then obtain a b c e where "s = [a, b, c, e]" "lower_char a = CHR ''t''" "lower_char b = CHR ''r''"
    "lower_char c = CHR ''u''" "lower_char e = CHR ''e''"
    unfolding lower_def by (auto simp: map_eq_Cons_conv)
  then show "\<exists>a b c e. s = [a, b, c, e] \<and> a \<in> {CHR ''t'', CHR ''T''} \<and> b \<in> {CHR ''r'', CHR ''R''} \<and>
        c \<in> {CHR ''u'', CHR ''U''} \<and> e \<in> {CHR ''e'', CHR ''E''}"
    unfolding lower_char_t lower_char_r lower_char_u lower_char_e by blast
next
  assume "\<exists>a b c e. s = [a, b, c, e] \<and> a \<in> {CHR ''t'', CHR ''T''} \<and> b \<in> {CHR ''r'', CHR ''R''} \<and>
        c \<in> {CHR ''u'', CHR ''U''} \<and> e \<in> {CHR ''e'', CHR ''E''}"
  then obtain a b c e where s: "s = [a, b, c, e]"
    and "a = CHR ''t'' \<or> a = CHR ''T''" "b = CHR ''r'' \<or> b = CHR ''R''"
        "c = CHR ''u'' \<or> c = CHR ''U''" "e = CHR ''e'' \<or> e = CHR ''E''"
    by blast
  then have "lower_char a = CHR ''t''" "lower_char b = CHR ''r''"
    "lower_char c = CHR ''u''" "lower_char e = CHR ''e''"
    unfolding lower_char_t lower_char_r lower_char_u lower_char_e by simp_all
  then show "lower s = ''true''"
    using s by (simp add: lower_def)
qed

lemma lower_false: "lower ''false'' = ''false''"
  by code_simp

lemma capitals: "map char_of [65..<91::nat] = ''ABCDEFGHIJKLMNOPQRSTUVWXYZ''"
  by code_simp

lemma smalls: "map (\<lambda>n. char_of (n + 32)) [65..<91::nat] = ''abcdefghijklmnopqrstuvwxyz''"
  by code_simp

lemma lower_char_spec: "lower_char c = spec_lowercase c"
proof (cases "65 \<le> (of_char c :: nat) \<and> (of_char c :: nat) \<le> 90")
  case True
  define i where "i = (of_char c :: nat) - 65"
  have i: "i < 26" "(of_char c :: nat) = 65 + i"
    using True unfolding i_def by linarith+
  have c: "c = char_of (65 + i)"
    using i(2) by (metis char_of_char)
  have len: "i < length [65..<91::nat]"
    using i(1) by (simp only: length_upt)
  have nth: "[65..<91::nat] ! i = 65 + i"
    by (rule nth_upt) (use i(1) in simp)
  have u: "''ABCDEFGHIJKLMNOPQRSTUVWXYZ'' ! i = c"
    unfolding capitals [symmetric] by (simp only: nth_map [OF len] nth c)
  have l: "''abcdefghijklmnopqrstuvwxyz'' ! i = char_of (65 + i + 32)"
    unfolding smalls [symmetric] by (simp only: nth_map [OF len] nth)
  have "distinct ''ABCDEFGHIJKLMNOPQRSTUVWXYZ''" by code_simp
  then have "map_of (zip ''ABCDEFGHIJKLMNOPQRSTUVWXYZ'' ''abcdefghijklmnopqrstuvwxyz'')
               (''ABCDEFGHIJKLMNOPQRSTUVWXYZ'' ! i) = Some (''abcdefghijklmnopqrstuvwxyz'' ! i)"
    using i(1) by (intro map_of_zip_nth) simp_all
  then have "spec_lowercase c = char_of (65 + i + 32)"
    unfolding u l by (simp add: spec_lowercase_def)
  moreover have "lower_char c = char_of (65 + i + 32)"
    using True i(2) by (simp add: lower_char_def)
  ultimately show ?thesis by simp
next
  case False
  have "c \<notin> set ''ABCDEFGHIJKLMNOPQRSTUVWXYZ''"
  proof
    assume "c \<in> set ''ABCDEFGHIJKLMNOPQRSTUVWXYZ''"
    then have "c \<in> char_of ` set [65..<91::nat]"
      unfolding capitals [symmetric] by (simp only: set_map)
    then obtain n where n: "65 \<le> n" "n < 91" "c = char_of (n::nat)"
      by (auto simp only: set_upt atLeastLessThan_iff)
    then have "(of_char c :: nat) = n" by simp
    then show False using False n by simp
  qed
  then have "map_of (zip ''ABCDEFGHIJKLMNOPQRSTUVWXYZ'' ''abcdefghijklmnopqrstuvwxyz'') c = None"
    by (subst map_of_zip_is_None) simp_all
  then have "spec_lowercase c = c"
    by (simp add: spec_lowercase_def)
  then show ?thesis using False by (auto simp: lower_char_def)
qed

lemma lower_spec: "lower s = map spec_lowercase s"
  by (simp add: lower_def lower_char_spec)

section \<open>The Version Resolver\<close>

text \<open>
  C1. For an explicit version the tag is meant to be \<open>wasi-sdk-\<close> followed by the input
  without a trailing \<open>.0\<close> suffix. The resolver calls \<open>rstrip('.0')\<close>, which removes every
  trailing \<open>.\<close> and \<open>0\<close>: on the input \<open>20.0\<close> it returns the tag \<open>wasi-sdk-2\<close>, where the
  tag of the specification is \<open>wasi-sdk-20\<close>.
\<close>

theorem resolver_tag_of_20_0:
  "calculate_version_and_tag latest ''20.0'' = Inr (''20.0'', ''wasi-sdk-2'') \<and>
   spec_tag ''20.0'' = ''wasi-sdk-20''"
  by (simp add: calculate_version_and_tag_def rstrip_def spec_tag_def)

text \<open>
  C2. The invariant of the returned pair (a version with a dot, and a tag that is
  \<open>wasi-sdk-\<close> followed by the version with or without its trailing \<open>.0\<close>) is broken by
  the same call of \<open>rstrip\<close>: the input \<open>10\<close> gives the version \<open>10.0\<close> with the tag
  \<open>wasi-sdk-1\<close>.
\<close>

theorem resolver_invariant_broken_at_10:
  "calculate_version_and_tag latest ''10'' = Inr (''10.0'', ''wasi-sdk-1'') \<and>
   \<not> spec_version_invariant (''10.0'', ''wasi-sdk-1'')"
  by (simp add: calculate_version_and_tag_def rstrip_def spec_version_invariant_def)

text \<open>The first half of the invariant holds for every input: the version has a dot.\<close>

lemma resolver_version_has_dot:
  "calculate_version_and_tag latest version = Inr (v, tag) \<Longrightarrow> CHR ''.'' \<in> set v"
  by (auto simp: calculate_version_and_tag_def Let_def split: if_splits sum.splits)

text \<open>The answer \<open>wasi-sdk-25\<close> of the release service resolves \<open>latest\<close> to version 25.0.\<close>

lemma resolver_latest_example:
  "calculate_version_and_tag (Inr ''wasi-sdk-25'') ''latest'' = Inr (''25.0'', ''wasi-sdk-25'')"
  by code_simp

text \<open>
  C3. The three test vectors of the resolver: \<open>25\<close> gives \<open>(25.0, wasi-sdk-25)\<close>, \<open>25.0\<close>
  gives \<open>(25.0, wasi-sdk-25)\<close> and \<open>25.1\<close> gives \<open>(25.1, wasi-sdk-25.1)\<close>, whatever the
  release service would answer.
\<close>

theorem resolver_test_vectors:
  "calculate_version_and_tag latest ''25'' = Inr (''25.0'', ''wasi-sdk-25'') \<and>
   calculate_version_and_tag latest ''25.0'' = Inr (''25.0'', ''wasi-sdk-25'') \<and>
   calculate_version_and_tag latest ''25.1'' = Inr (''25.1'', ''wasi-sdk-25.1'')"
  by (simp add: calculate_version_and_tag_def rstrip_def)

section \<open>The URL Builder\<close>

text \<open>
  C4. The URL is a function of version, tag, architecture and platform alone: for every
  platform name of ASCII characters it is the fixed template, in which the platform
  \<open>Darwin\<close> is written \<open>macos\<close> and every other platform is written with each capital
  letter replaced by its small letter and every other character kept. The two test
  vectors hold.
\<close>

theorem artifact_url_template:
  assumes "\<forall>c \<in> set os. (of_char c :: nat) < 128"
  shows "calculate_artifact_url version tag arch os =
     ''https://github.com/WebAssembly/wasi-sdk/releases/download/'' @ tag @
     ''/wasi-sdk-'' @ version @ ''-'' @ arch @ ''-'' @
     (if os = ''Darwin'' then ''macos'' else map spec_lowercase os) @ ''.tar.gz'' \<and>
   calculate_artifact_url ''25.0'' ''wasi-sdk-25'' ''x86_64'' ''Linux'' =
     ''https://github.com/WebAssembly/wasi-sdk/releases/download/wasi-sdk-25/wasi-sdk-25.0-x86_64-linux.tar.gz'' \<and>
   calculate_artifact_url ''25.1'' ''wasi-sdk-25.1'' ''arm64'' ''Darwin'' =
     ''https://github.com/WebAssembly/wasi-sdk/releases/download/wasi-sdk-25.1/wasi-sdk-25.1-arm64-macos.tar.gz''"
proof (intro conjI)
  show "calculate_artifact_url version tag arch os =
     ''https://github.com/WebAssembly/wasi-sdk/releases/download/'' @ tag @
     ''/wasi-sdk-'' @ version @ ''-'' @ arch @ ''-'' @
     (if os = ''Darwin'' then ''macos'' else map spec_lowercase os) @ ''.tar.gz''"
    by (simp add: calculate_artifact_url_def lower_spec)
  show "calculate_artifact_url ''25.0'' ''wasi-sdk-25'' ''x86_64'' ''Linux'' =
     ''https://github.com/WebAssembly/wasi-sdk/releases/download/wasi-sdk-25/wasi-sdk-25.0-x86_64-linux.tar.gz''"
    by (simp add: calculate_artifact_url_def lower_Linux)
  show "calculate_artifact_url ''25.1'' ''wasi-sdk-25.1'' ''arm64'' ''Darwin'' =
     ''https://github.com/WebAssembly/wasi-sdk/releases/download/wasi-sdk-25.1/wasi-sdk-25.1-arm64-macos.tar.gz''"
    by (simp add: calculate_artifact_url_def)
qed

theorem artifact_url_template_witness:
  "calculate_artifact_url ''25.0'' ''wasi-sdk-25'' ''x86_64'' ''Windows'' =
     ''https://github.com/WebAssembly/wasi-sdk/releases/download/wasi-sdk-25/wasi-sdk-25.0-x86_64-windows.tar.gz'' \<and>
   calculate_artifact_url ''25.0'' ''wasi-sdk-25'' ''aarch64'' ''FreeBSD'' =
     ''https://github.com/WebAssembly/wasi-sdk/releases/download/wasi-sdk-25/wasi-sdk-25.0-aarch64-freebsd.tar.gz''"
proof -
  have w: "\<forall>c \<in> set ''Windows''. (of_char c :: nat) < 128"
    by code_simp
  have f: "\<forall>c \<in> set ''FreeBSD''. (of_char c :: nat) < 128"
    by code_simp
  have lw: "map spec_lowercase ''Windows'' = ''windows''"
    by code_simp
  have lf: "map spec_lowercase ''FreeBSD'' = ''freebsd''"
    by code_simp
  show ?thesis
    using artifact_url_template [OF w, of "''25.0''" "''wasi-sdk-25''" "''x86_64''"]
          artifact_url_template [OF f, of "''25.0''" "''wasi-sdk-25''" "''aarch64''"]
    unfolding lw lf by simp
qed

section \<open>The Fetcher and Extractor\<close>

lemma extract_members_step:
  "extract_members ex d (m # ms) fs =
     (if CHR ''/'' \<in> set (name m)
      then (case ex (m\<lparr>name := tl (dropWhile (\<lambda>c. c \<noteq> CHR ''/'') (name m))\<rparr>) d fs of
              (Some e, fs') \<Rightarrow> (Some e, fs')
            | (None, fs') \<Rightarrow> extract_members ex d ms fs')
      else extract_members ex d ms fs)"
  using length_split [of "CHR ''/''" "name m"] join_tl_split [of "CHR ''/''" "name m"]
  by (simp add: Let_def)






lemma extract_members_frame:
  assumes "\<forall>m s. snd (ex m d s) t = s t"
  shows "snd (extract_members ex d ms fs) t = fs t"
proof (induction ms arbitrary: fs)
  case Nil
  show ?case by simp
next
  case (Cons m ms)
  show ?case
  proof (cases "CHR ''/'' \<in> set (name m)")
    case False
    then show ?thesis using Cons.IH by (simp add: extract_members_step del: extract_members.simps(2))
  next
    case True
    let ?m = "m\<lparr>name := tl (dropWhile (\<lambda>c. c \<noteq> CHR ''/'') (name m))\<rparr>"
    obtain r fs1 where step: "ex ?m d fs = (r, fs1)" by (cases "ex ?m d fs")
    then have "fs1 t = fs t" using assms by (metis snd_conv)
    then show ?thesis using True step Cons.IH [of fs1]
      by (cases r) (simp_all add: extract_members_step del: extract_members.simps(2))
  qed
qed

lemma extract_members_append:
  "extract_members ex d (pre @ post) fs =
     (case extract_members ex d pre fs of
        (Some e, fs') \<Rightarrow> (Some e, fs')
      | (None, fs') \<Rightarrow> extract_members ex d post fs')"
proof (induction pre arbitrary: fs)
  case Nil
  show ?case by simp
next
  case (Cons m pre)
  show ?case
    by (simp add: extract_members_step Cons.IH del: extract_members.simps(2)
          split: prod.splits option.splits)
qed

lemma makedirs_keeps_files:
  "makedirs d fs = Inr fs0 \<Longrightarrow> fs p = Some (File c) \<Longrightarrow> fs0 p = Some (File c)"
  by (auto simp: makedirs_def split: if_splits option.splits node.splits)

lemma install_success_unlinks:
  "install X url d fs = (None, fs') \<Longrightarrow> fs' (tmp_name X) = None"
  by (auto simp: install_def unlink_def Let_def
        split: sum.splits prod.splits option.splits node.splits)

text \<open>
  C8. A call of \<open>install\<close> that returns has removed the temporary file. When the download
  and the creation of the install directory succeed and the extraction of a member leaves
  the temporary file alone: if the loop goes through all members, the result is the file
  system it produced without the temporary file; if the extraction of a member fails after
  the members before it were extracted, \<open>install\<close> fails with that error in the file
  system as it was at the failure, with what was extracted so far and the temporary file
  with the download still in it.
\<close>

theorem install_temporary_file:
  assumes download: "urlretrieve X url = Inr bytes"
      and dirs: "makedirs d (fs(tmp_name X \<mapsto> File bytes)) = Inr fs0"
      and frame: "\<forall>m s. snd (tar_extract X m d s) (tmp_name X) = s (tmp_name X)"
  shows "(\<forall>fs'. install X url d fs = (None, fs') \<longrightarrow> fs' (tmp_name X) = None) \<and>
         (\<forall>ms fs1. tar_open X bytes = Inr ms \<and>
              extract_members (tar_extract X) d ms fs0 = (None, fs1) \<longrightarrow>
            install X url d fs = (None, fs1(tmp_name X := None))) \<and>
         (\<forall>pre m post fs1 e fs2. tar_open X bytes = Inr (pre @ m # post) \<and>
              extract_members (tar_extract X) d pre fs0 = (None, fs1) \<and>
              CHR ''/'' \<in> set (name m) \<and>
              tar_extract X (m\<lparr>name := tl (dropWhile (\<lambda>c. c \<noteq> CHR ''/'') (name m))\<rparr>) d fs1 =
                (Some e, fs2) \<longrightarrow>
            install X url d fs = (Some e, fs2) \<and> fs2 (tmp_name X) = Some (File bytes))"
proof (intro conjI allI impI)
  fix fs'
  assume "install X url d fs = (None, fs')"
  then show "fs' (tmp_name X) = None" by (rule install_success_unlinks)
next
  have tmp0: "fs0 (tmp_name X) = Some (File bytes)"
    using makedirs_keeps_files [OF dirs] by simp
  {
    fix ms fs1
    assume a: "tar_open X bytes = Inr ms \<and> extract_members (tar_extract X) d ms fs0 = (None, fs1)"
    have "fs1 (tmp_name X) = fs0 (tmp_name X)"
      using extract_members_frame [of "tar_extract X" d "tmp_name X" ms fs0] frame a by simp
    then have "unlink (tmp_name X) fs1 = (None, fs1(tmp_name X := None))"
      using tmp0 by (simp add: unlink_def)
    then show "install X url d fs = (None, fs1(tmp_name X := None))"
      using download dirs a by (simp add: install_def)
  }
  {
    fix pre m post fs1 e fs2
    assume a: "tar_open X bytes = Inr (pre @ m # post) \<and>
              extract_members (tar_extract X) d pre fs0 = (None, fs1) \<and>
              CHR ''/'' \<in> set (name m) \<and>
              tar_extract X (m\<lparr>name := tl (dropWhile (\<lambda>c. c \<noteq> CHR ''/'') (name m))\<rparr>) d fs1 =
                (Some e, fs2)"
    then have loop: "extract_members (tar_extract X) d (pre @ m # post) fs0 = (Some e, fs2)"
      by (simp add: extract_members_append extract_members_step del: extract_members.simps(2))
    show "install X url d fs = (Some e, fs2)"
      using download dirs a loop by (simp add: install_def)
    have "fs2 (tmp_name X) = fs0 (tmp_name X)"
      using extract_members_frame [of "tar_extract X" d "tmp_name X" "pre @ m # post" fs0] frame loop by simp
    then show "fs2 (tmp_name X) = Some (File bytes)"
      using tmp0 by simp
  }
qed

theorem install_temporary_file_witness:
  "install (example_externals [''share/wasi-sysroot'']) example_url ''D'' Map.empty =
     (Some ExtractError,
      [''/tmp/t'' \<mapsto> File ''tgz'', ''D'' \<mapsto> Dir, ''D/bin/clang'' \<mapsto> File ''elf'']) \<and>
   [''/tmp/t'' \<mapsto> File ''tgz'', ''D'' \<mapsto> Dir, ''D/bin/clang'' \<mapsto> File ''elf''] ''/tmp/t'' =
     Some (File ''tgz'') \<and>
   install (example_externals []) example_url ''D'' Map.empty =
     (None, [''/tmp/t'' \<mapsto> File ''tgz'', ''D'' \<mapsto> Dir, ''D/bin/clang'' \<mapsto> File ''elf'',
             ''D/share/wasi-sysroot'' \<mapsto> Dir](''/tmp/t'' := None))"
proof -
  let ?X = "example_externals [''share/wasi-sysroot'']"
  let ?Y = "example_externals []"
  let ?top = "\<lparr>name = ''sdk'', entry = Dir\<rparr>"
  let ?clang = "\<lparr>name = ''sdk/bin/clang'', entry = File ''elf''\<rparr>"
  let ?sysroot = "\<lparr>name = ''sdk/share/wasi-sysroot'', entry = Dir\<rparr>"
  let ?fs0 = "[''/tmp/t'' \<mapsto> File ''tgz'', ''D'' \<mapsto> Dir]"
  let ?fs1 = "[''/tmp/t'' \<mapsto> File ''tgz'', ''D'' \<mapsto> Dir, ''D/bin/clang'' \<mapsto> File ''elf'']"
  let ?fs2 = "[''/tmp/t'' \<mapsto> File ''tgz'', ''D'' \<mapsto> Dir, ''D/bin/clang'' \<mapsto> File ''elf'',
               ''D/share/wasi-sysroot'' \<mapsto> Dir]"
  have downloadX: "urlretrieve ?X example_url = Inr ''tgz''"
    by (simp add: example_externals_def)
  have dirsX: "makedirs ''D'' (Map.empty(tmp_name ?X \<mapsto> File ''tgz'')) = Inr ?fs0"
    by (simp add: example_externals_def makedirs_def)
  have frameX: "\<forall>m s. snd (tar_extract ?X m ''D'' s) (tmp_name ?X) = s (tmp_name ?X)"
    by (simp add: example_externals_def plain_extract_def)
  have failing:
    "tar_open ?X ''tgz'' = Inr ([?top, ?clang] @ ?sysroot # []) \<and>
     extract_members (tar_extract ?X) ''D'' [?top, ?clang] ?fs0 = (None, ?fs1) \<and>
     CHR ''/'' \<in> set (name ?sysroot) \<and>
     tar_extract ?X
       (?sysroot\<lparr>name := tl (dropWhile (\<lambda>c. c \<noteq> CHR ''/'') (name ?sysroot))\<rparr>) ''D'' ?fs1 =
       (Some ExtractError, ?fs1)"
    by (simp add: example_externals_def plain_extract_def)
  have downloadY: "urlretrieve ?Y example_url = Inr ''tgz''"
    by (simp add: example_externals_def)
  have dirsY: "makedirs ''D'' (Map.empty(tmp_name ?Y \<mapsto> File ''tgz'')) = Inr ?fs0"
    by (simp add: example_externals_def makedirs_def)
  have frameY: "\<forall>m s. snd (tar_extract ?Y m ''D'' s) (tmp_name ?Y) = s (tmp_name ?Y)"
    by (simp add: example_externals_def plain_extract_def)
  have complete:
    "tar_open ?Y ''tgz'' = Inr [?top, ?clang, ?sysroot] \<and>
     extract_members (tar_extract ?Y) ''D'' [?top, ?clang, ?sysroot] ?fs0 = (None, ?fs2)"
    by (simp add: example_externals_def plain_extract_def)
  have tmpY: "tmp_name ?Y = ''/tmp/t''"
    by (simp add: example_externals_def)
  show ?thesis
    using install_temporary_file [OF downloadX dirsX frameX, THEN conjunct2, THEN conjunct2,
            rule_format, OF failing]
          install_temporary_file [OF downloadY dirsY frameY, THEN conjunct2, THEN conjunct1,
            rule_format, OF complete]
          tmpY
    by simp
qed

section \<open>The Output Writer\<close>

lemma open_append_opens:
  "opens r fs f \<Longrightarrow>
   open_append r f fs = Inr (case fs f of None \<Rightarrow> fs(f \<mapsto> File []) | Some n \<Rightarrow> fs)"
  by (auto simp: opens_def open_append_def split: option.splits node.splits if_splits)

lemma open_append_fails: "\<not> opens r fs f \<Longrightarrow> open_append r f fs = Inl OSError"
  by (auto simp: opens_def open_append_def split: option.splits node.splits if_splits)

lemma opens_not_Dir: "opens r fs f \<Longrightarrow> fs f \<noteq> Some Dir"
  by (auto simp: opens_def open_append_def split: if_splits)

lemma file_write_twice: "file_write f a (file_write f b fs) = file_write f (b @ a) fs"
  by (auto simp: file_write_def split: option.splits node.splits)

lemma open_write:
  assumes "opens r fs f"
  shows "\<exists>fs1. open_append r f fs = Inr fs1 \<and>
           (\<forall>s. file_write f s fs1 = fs(f \<mapsto> File (content fs f @ s)))"
  using open_append_opens [OF assms] opens_not_Dir [OF assms]
  by (cases "fs f") (auto simp: file_write_def content_def split: node.splits)

lemma opens_after_append:
  assumes "opens r fs p"
  shows "opens r (fs(p \<mapsto> File c)) q = opens r fs q"
proof (cases "q = p")
  case True
  then show ?thesis using assms
    by (auto simp: opens_def open_append_def split: if_splits)
next
  case False
  have "isdir (fs(p \<mapsto> File c)) (dirname q) = isdir fs (dirname q)"
    using opens_not_Dir [OF assms] by (auto simp: isdir_def split: option.splits node.splits)
  then show ?thesis using False
    by (auto simp: opens_def open_append_def split: option.splits node.splits)
qed

lemma block_unfold:
  "(case fl of
      None \<Rightarrow> (None, fs)
    | Some f \<Rightarrow>
        if f = [] then (None, fs)
        else (case open_append r f fs of
                Inl e \<Rightarrow> (Some e, fs)
              | Inr fs1 \<Rightarrow>
                  (case version of
                     None \<Rightarrow> (Some (NameError ''version''), file_write f s1 fs1)
                   | Some v \<Rightarrow> (None, file_write f (s1 @ rest v) fs1)))) =
   append_block r version fl s1 rest fs"
proof (cases "\<exists>f. fl = Some f \<and> f \<noteq> []")
  case False
  then show ?thesis by (cases fl) (auto simp: append_block_def)
next
  case True
  then obtain f where f: "fl = Some f" "f \<noteq> []" by blast
  show ?thesis
  proof (cases "opens r fs f")
    case False
    then show ?thesis using f open_append_fails [OF False] by (simp add: append_block_def)
  next
    case True
    obtain fs1 where "open_append r f fs = Inr fs1"
      and "\<And>s. file_write f s fs1 = fs(f \<mapsto> File (content fs f @ s))"
      using open_write [OF True] by blast
    then show ?thesis using f True by (simp add: append_block_def split: option.splits)
  qed
qed

lemma write_variables_blocks:
  "write_variables r version d out env fs =
     (if \<not> isfile fs (d @ ''/bin/clang'')
      then (Some (AssertionError (''clang not found at '' @ d @ ''/bin/clang'')), fs)
      else if \<not> isdir fs (d @ ''/share/wasi-sysroot'')
      then (Some (AssertionError (''sysroot not found at '' @ d @ ''/share/wasi-sysroot'')), fs)
      else (case append_block r version out (''wasi-sdk-path='' @ d @ ''\<newline>'')
                   (\<lambda>v. ''wasi-sdk-version='' @ v @ ''\<newline>'' @
                        ''clang-path='' @ d @ ''/bin/clang'' @ ''\<newline>'' @
                        ''sysroot-path='' @ d @ ''/share/wasi-sysroot'' @ ''\<newline>'') fs of
              (Some e, fs') \<Rightarrow> (Some e, fs')
            | (None, fs') \<Rightarrow>
                append_block r version env (''WASI_SDK_PATH='' @ d @ ''\<newline>'')
                  (\<lambda>v. ''WASI_SDK_VERSION='' @ v @ ''\<newline>'' @
                       ''CC='' @ d @ ''/bin/clang'' @ '' --sysroot='' @ d @
                         ''/share/wasi-sysroot'' @ ''\<newline>'' @
                       ''CXX='' @ d @ ''/bin/clang'' @ ''++ --sysroot='' @ d @
                         ''/share/wasi-sysroot'' @ ''\<newline>'') fs'))"
  unfolding block_unfold [symmetric]
  by (auto simp: write_variables_def Let_def file_write_twice split: option.splits sum.splits)

lemmas block_defs =
  write_variables_blocks append_block_def appended_def output_lines_def env_lines_def

lemma write_variables_bound:
  assumes clang: "isfile fs (d @ ''/bin/clang'')"
      and sysroot: "isdir fs (d @ ''/share/wasi-sysroot'')"
      and out: "\<And>p. out = Some p \<Longrightarrow> p \<noteq> [] \<Longrightarrow> opens r fs p"
      and env: "\<And>q. env = Some q \<Longrightarrow> q \<noteq> [] \<Longrightarrow> opens r fs q"
  shows "write_variables r (Some v) d out env fs =
           (None, appended env (env_lines d v) (appended out (output_lines d v) fs))"
  using assms by (cases out; cases env) (auto simp: block_defs opens_after_append)

lemma write_variables_asserts:
  assumes "fst (write_variables r version d out env fs) = None"
  shows "isfile fs (d @ ''/bin/clang'') \<and> isdir fs (d @ ''/share/wasi-sysroot'')"
  using assms by (auto simp: write_variables_blocks split: if_splits)

lemma write_variables_success:
  assumes run: "write_variables r (Some v) d out env fs = (None, fs')"
  shows "fs' = appended env (env_lines d v) (appended out (output_lines d v) fs)"
  using assms by (cases out; cases env) (auto simp: block_defs split: if_splits)

lemma write_variables_success_unbound:
  assumes "write_variables r None d out env fs = (None, fs')"
  shows "fs' = fs \<and> (out = None \<or> out = Some []) \<and> (env = None \<or> env = Some [])"
  using assms by (cases out; cases env) (auto simp: block_defs split: if_splits)

lemma write_variables_checks:
  assumes "snd (write_variables r version d out env fs) \<noteq> fs"
  shows "isfile fs (d @ ''/bin/clang'') \<and> isdir fs (d @ ''/share/wasi-sysroot'')"
  using assms by (auto simp: write_variables_blocks split: if_splits)

lemma write_variables_unbound_output:
  assumes "isfile fs (d @ ''/bin/clang'')" "isdir fs (d @ ''/share/wasi-sysroot'')"
      and "out = Some p" "p \<noteq> []" "opens r fs p"
  shows "write_variables r None d out env fs =
           (Some (NameError ''version''),
            fs(p \<mapsto> File (content fs p @ ''wasi-sdk-path='' @ d @ ''\<newline>'')))"
  using assms by (simp add: block_defs)

lemma write_variables_unbound_env:
  assumes "isfile fs (d @ ''/bin/clang'')" "isdir fs (d @ ''/share/wasi-sysroot'')"
      and "out = None \<or> out = Some []" "env = Some q" "q \<noteq> []" "opens r fs q"
  shows "write_variables r None d out env fs =
           (Some (NameError ''version''),
            fs(q \<mapsto> File (content fs q @ ''WASI_SDK_PATH='' @ d @ ''\<newline>'')))"
  using assms by (auto simp: block_defs)

lemma write_variables_unbound_nothing:
  assumes "isfile fs (d @ ''/bin/clang'')" "isdir fs (d @ ''/share/wasi-sysroot'')"
      and "out = None \<or> out = Some []" "env = None \<or> env = Some []"
  shows "write_variables r None d out env fs = (None, fs)"
  using assms by (auto simp: block_defs)

lemma write_variables_output_refused:
  assumes "isfile fs (d @ ''/bin/clang'')" "isdir fs (d @ ''/share/wasi-sysroot'')"
      and "out = Some p" "p \<noteq> []" "\<not> opens r fs p"
  shows "write_variables r version d out env fs = (Some OSError, fs)"
  using assms by (simp add: block_defs)

lemma write_variables_env_refused:
  assumes "isfile fs (d @ ''/bin/clang'')" "isdir fs (d @ ''/share/wasi-sysroot'')"
      and "out = None \<or> out = Some []" "env = Some q" "q \<noteq> []" "\<not> opens r fs q"
  shows "write_variables r version d out env fs = (Some OSError, fs)"
  using assms by (auto simp: block_defs)

lemma appended_prefix:
  "fs p = Some (File c) \<Longrightarrow> \<exists>s. appended fl t fs p = Some (File (c @ s))"
  by (auto simp: appended_def content_def split: option.splits)

lemma appended_other: "Some p \<noteq> fl \<Longrightarrow> appended fl t fs p = fs p"
  by (auto simp: appended_def split: option.splits)

text \<open>
  C6. When \<open>bin/clang\<close> is not a file under the install directory, the writer fails with
  the assertion on clang and writes nothing, whether \<open>share/wasi-sysroot\<close> is there or
  not; when clang is there and \<open>share/wasi-sysroot\<close> is not a directory, it fails with
  the assertion on the sysroot and writes nothing; and whenever the writer changes the
  file system, both paths were there.
\<close>

theorem write_variables_requires_clang_and_sysroot:
  "(\<not> isfile fs (d @ ''/bin/clang'') \<longrightarrow>
      write_variables r version d out env fs =
        (Some (AssertionError (''clang not found at '' @ d @ ''/bin/clang'')), fs)) \<and>
   (isfile fs (d @ ''/bin/clang'') \<and> \<not> isdir fs (d @ ''/share/wasi-sysroot'') \<longrightarrow>
      write_variables r version d out env fs =
        (Some (AssertionError (''sysroot not found at '' @ d @ ''/share/wasi-sysroot'')), fs)) \<and>
   (snd (write_variables r version d out env fs) \<noteq> fs \<longrightarrow>
      isfile fs (d @ ''/bin/clang'') \<and> isdir fs (d @ ''/share/wasi-sysroot''))"
proof (intro conjI impI)
  assume "\<not> isfile fs (d @ ''/bin/clang'')"
  then show "write_variables r version d out env fs =
        (Some (AssertionError (''clang not found at '' @ d @ ''/bin/clang'')), fs)"
    by (simp add: write_variables_def)
next
  assume "isfile fs (d @ ''/bin/clang'') \<and> \<not> isdir fs (d @ ''/share/wasi-sysroot'')"
  then show "write_variables r version d out env fs =
        (Some (AssertionError (''sysroot not found at '' @ d @ ''/share/wasi-sysroot'')), fs)"
    by (simp add: write_variables_def)
next
  assume changed: "snd (write_variables r version d out env fs) \<noteq> fs"
  show "isfile fs (d @ ''/bin/clang'')"
    using write_variables_checks [OF changed] by simp
  show "isdir fs (d @ ''/share/wasi-sysroot'')"
    using write_variables_checks [OF changed] by simp
qed

theorem write_variables_requires_clang_and_sysroot_witness:
  "write_variables (\<lambda>path. False) (Some ''25'') ''D'' (Some ''out'') (Some ''env'')
     [''D/share/wasi-sysroot'' \<mapsto> Dir, ''out'' \<mapsto> File ''old''] =
     (Some (AssertionError ''clang not found at D/bin/clang''),
      [''D/share/wasi-sysroot'' \<mapsto> Dir, ''out'' \<mapsto> File ''old'']) \<and>
   write_variables (\<lambda>path. False) (Some ''25'') ''D'' (Some ''out'') (Some ''env'')
     [''D/bin/clang'' \<mapsto> File ''elf''] =
     (Some (AssertionError ''sysroot not found at D/share/wasi-sysroot''),
      [''D/bin/clang'' \<mapsto> File ''elf'']) \<and>
   isfile [''D/bin/clang'' \<mapsto> File ''elf'', ''D/share/wasi-sysroot'' \<mapsto> Dir] ''D/bin/clang'' \<and>
   isdir [''D/bin/clang'' \<mapsto> File ''elf'', ''D/share/wasi-sysroot'' \<mapsto> Dir]
     ''D/share/wasi-sysroot''"
proof -
  let ?r = "\<lambda>path :: string. False"
  let ?a = "[''D/share/wasi-sysroot'' \<mapsto> Dir, ''out'' \<mapsto> File ''old'']"
  let ?b = "[''D/bin/clang'' \<mapsto> File ''elf'']"
  let ?c = "[''D/bin/clang'' \<mapsto> File ''elf'', ''D/share/wasi-sysroot'' \<mapsto> Dir]"
  have a: "\<not> isfile ?a (''D'' @ ''/bin/clang'')"
    by (simp add: isfile_def)
  have b: "isfile ?b (''D'' @ ''/bin/clang'') \<and> \<not> isdir ?b (''D'' @ ''/share/wasi-sysroot'')"
    by (simp add: isfile_def isdir_def)
  have "snd (write_variables ?r (Some ''25'') ''D'' (Some ''out'') (Some ''env'') ?c) ''out'' \<noteq>
          ?c ''out''"
    by code_simp
  then have c: "snd (write_variables ?r (Some ''25'') ''D'' (Some ''out'') (Some ''env'') ?c) \<noteq> ?c"
    by (rule contrapos_nn) (rule fun_cong)
  show ?thesis
    using write_variables_requires_clang_and_sysroot
            [of ?a "''D''" ?r "Some ''25''" "Some ''out''" "Some ''env''"]
          write_variables_requires_clang_and_sysroot
            [of ?b "''D''" ?r "Some ''25''" "Some ''out''" "Some ''env''"]
          write_variables_requires_clang_and_sysroot
            [of ?c "''D''" ?r "Some ''25''" "Some ''out''" "Some ''env''"]
          a b c
    by (simp add: isfile_def isdir_def)
qed

text \<open>
  C7. After a call of the writer that succeeds, every file holds its previous content
  followed by what was appended, no path but the two file arguments has changed (so an
  argument that is \<open>None\<close> leaves everything to the other one), and the file system is the
  previous one with the four output lines after the content of the output file and the
  four environment lines, among them the \<open>CC\<close> line with the clang path and the
  \<open>--sysroot\<close> flag, after the content of the environment file.
\<close>

theorem write_variables_append_only:
  assumes "write_variables r version d out env fs = (None, fs')"
  shows "(\<forall>p c. fs p = Some (File c) \<longrightarrow> (\<exists>s. fs' p = Some (File (c @ s)))) \<and>
         (\<forall>p. Some p \<noteq> out \<and> Some p \<noteq> env \<longrightarrow> fs' p = fs p) \<and>
         (\<forall>v. version = Some v \<longrightarrow>
            fs' = appended env (env_lines d v) (appended out (output_lines d v) fs)) \<and>
         (version = None \<longrightarrow> fs' = fs)"
proof (cases version)
  case None
  then have "fs' = fs"
    using assms write_variables_success_unbound by blast
  then show ?thesis using None by simp
next
  case (Some v)
  then have eq: "fs' = appended env (env_lines d v) (appended out (output_lines d v) fs)"
    using assms write_variables_success by blast
  have "\<exists>s. fs' p = Some (File (c @ s))" if h: "fs p = Some (File c)" for p c
  proof -
    obtain s where "appended out (output_lines d v) fs p = Some (File (c @ s))"
      using appended_prefix [of fs p c out "output_lines d v"] h by blast
    then obtain t where "fs' p = Some (File ((c @ s) @ t))"
      unfolding eq using appended_prefix by blast
    then show ?thesis by auto
  qed
  moreover have "fs' p = fs p" if "Some p \<noteq> out \<and> Some p \<noteq> env" for p
    unfolding eq using that by (simp add: appended_other)
  ultimately show ?thesis using Some eq by auto
qed

theorem write_variables_append_only_witness:
  "write_variables (\<lambda>path. False) (Some ''25'') ''D'' None (Some ''env'')
     [''D/bin/clang'' \<mapsto> File ''elf'', ''D/share/wasi-sysroot'' \<mapsto> Dir, ''env'' \<mapsto> File ''A=1'']
   = (None,
      [''D/bin/clang'' \<mapsto> File ''elf'', ''D/share/wasi-sysroot'' \<mapsto> Dir,
       ''env'' \<mapsto> File (''A=1'' @ env_lines ''D'' ''25'')]) \<and>
   (\<exists>s. [''D/bin/clang'' \<mapsto> File ''elf'', ''D/share/wasi-sysroot'' \<mapsto> Dir,
         ''env'' \<mapsto> File (''A=1'' @ env_lines ''D'' ''25'')] ''env'' = Some (File (''A=1'' @ s)))"
proof -
  let ?fs = "[''D/bin/clang'' \<mapsto> File ''elf'', ''D/share/wasi-sysroot'' \<mapsto> Dir,
              ''env'' \<mapsto> File ''A=1'']"
  let ?fs' = "[''D/bin/clang'' \<mapsto> File ''elf'', ''D/share/wasi-sysroot'' \<mapsto> Dir,
       ''env'' \<mapsto> File (''A=1'' @ env_lines ''D'' ''25'')]"
  have "opens (\<lambda>path. False) ?fs ''env''"
    by (simp add: opens_def open_append_def basename_def)
  then have run: "write_variables (\<lambda>path. False) (Some ''25'') ''D'' None (Some ''env'') ?fs =
                    (None, ?fs')"
    by (simp add: write_variables_blocks append_block_def content_def env_lines_def
          isfile_def isdir_def)
  have old: "?fs ''env'' = Some (File ''A=1'')"
    by simp
  show ?thesis
    using write_variables_append_only [OF run] run old by blast
qed

section \<open>The start-up block\<close>

lemma startup_fields:
  "cfg_version (startup environ a) = getenv environ ''INPUT_VERSION'' (arg_version a)"
  "cfg_install_dir (startup environ a) = getenv environ ''INPUT_INSTALL_DIR'' (arg_install_dir a)"
  "cfg_add_to_path (startup environ a) =
     (lower (getenv environ ''INPUT_ADD_TO_PATH'' ''false'') = ''true'')"
  "cfg_output_file (startup environ a) =
     (if cfg_add_to_path (startup environ a)
      then getenv_optional environ ''GITHUB_PATH'' (arg_output_file a) else arg_output_file a)"
  "cfg_env_file (startup environ a) =
     (if cfg_add_to_path (startup environ a)
      then getenv_optional environ ''GITHUB_ENV'' (arg_env_file a) else arg_env_file a)"
  by (simp_all add: startup_def Let_def)

text \<open>
  C9. The configured version is the value of \<open>INPUT_VERSION\<close> when that variable is set
  and the \<open>--version\<close> flag otherwise, and likewise the install directory with
  \<open>INPUT_INSTALL_DIR\<close>. The paths are redirected exactly when \<open>INPUT_ADD_TO_PATH\<close> is set
  to the word \<open>true\<close> in any mix of upper and lower case; then the output file is the
  value of \<open>GITHUB_PATH\<close> and the environment file the value of \<open>GITHUB_ENV\<close>, each with
  the value of its flag when the variable is not set; otherwise both are the values of
  their flags.
\<close>

theorem startup_overrides:
  "cfg_version (startup environ a) =
     (case environ ''INPUT_VERSION'' of None \<Rightarrow> arg_version a | Some v \<Rightarrow> v) \<and>
   cfg_install_dir (startup environ a) =
     (case environ ''INPUT_INSTALL_DIR'' of None \<Rightarrow> arg_install_dir a | Some v \<Rightarrow> v) \<and>
   cfg_add_to_path (startup environ a) =
     (\<exists>t r u e. environ ''INPUT_ADD_TO_PATH'' = Some [t, r, u, e] \<and>
        t \<in> {CHR ''t'', CHR ''T''} \<and> r \<in> {CHR ''r'', CHR ''R''} \<and>
        u \<in> {CHR ''u'', CHR ''U''} \<and> e \<in> {CHR ''e'', CHR ''E''}) \<and>
   cfg_output_file (startup environ a) =
     (if cfg_add_to_path (startup environ a)
      then (case environ ''GITHUB_PATH'' of None \<Rightarrow> arg_output_file a | Some p \<Rightarrow> Some p)
      else arg_output_file a) \<and>
   cfg_env_file (startup environ a) =
     (if cfg_add_to_path (startup environ a)
      then (case environ ''GITHUB_ENV'' of None \<Rightarrow> arg_env_file a | Some p \<Rightarrow> Some p)
      else arg_env_file a)"
proof (intro conjI)
  show "cfg_add_to_path (startup environ a) =
     (\<exists>t r u e. environ ''INPUT_ADD_TO_PATH'' = Some [t, r, u, e] \<and>
        t \<in> {CHR ''t'', CHR ''T''} \<and> r \<in> {CHR ''r'', CHR ''R''} \<and>
        u \<in> {CHR ''u'', CHR ''U''} \<and> e \<in> {CHR ''e'', CHR ''E''})"
  proof (cases "environ ''INPUT_ADD_TO_PATH''")
    case None
    then show ?thesis by (simp add: startup_fields(3) getenv_def lower_false)
  next
    case (Some s)
    then show ?thesis using lower_true_iff [of s] by (simp add: startup_fields(3) getenv_def)
  qed
qed (simp_all only: startup_fields getenv_def getenv_optional_def)

theorem startup_overrides_witness:
  "cfg_version (startup [''INPUT_VERSION'' \<mapsto> ''25'', ''INPUT_ADD_TO_PATH'' \<mapsto> ''True'',
                         ''GITHUB_PATH'' \<mapsto> ''/gh/path''] default_args) = ''25'' \<and>
   cfg_install_dir (startup [''INPUT_VERSION'' \<mapsto> ''25'', ''INPUT_ADD_TO_PATH'' \<mapsto> ''True'',
                             ''GITHUB_PATH'' \<mapsto> ''/gh/path''] default_args) = ''.'' \<and>
   cfg_add_to_path (startup [''INPUT_VERSION'' \<mapsto> ''25'', ''INPUT_ADD_TO_PATH'' \<mapsto> ''True'',
                             ''GITHUB_PATH'' \<mapsto> ''/gh/path''] default_args) \<and>
   cfg_output_file (startup [''INPUT_VERSION'' \<mapsto> ''25'', ''INPUT_ADD_TO_PATH'' \<mapsto> ''True'',
                             ''GITHUB_PATH'' \<mapsto> ''/gh/path''] default_args) = Some ''/gh/path'' \<and>
   cfg_env_file (startup [''INPUT_VERSION'' \<mapsto> ''25'', ''INPUT_ADD_TO_PATH'' \<mapsto> ''True'',
                          ''GITHUB_PATH'' \<mapsto> ''/gh/path''] default_args) = None \<and>
   cfg_output_file (startup [''INPUT_ADD_TO_PATH'' \<mapsto> ''yes'', ''GITHUB_PATH'' \<mapsto> ''/gh/path'']
                      default_args) = None"
  using startup_overrides
          [of "[''INPUT_VERSION'' \<mapsto> ''25'', ''INPUT_ADD_TO_PATH'' \<mapsto> ''True'',
                ''GITHUB_PATH'' \<mapsto> ''/gh/path'']" default_args]
        startup_overrides
          [of "[''INPUT_ADD_TO_PATH'' \<mapsto> ''yes'', ''GITHUB_PATH'' \<mapsto> ''/gh/path'']" default_args]
  by (simp add: default_args_def)

section \<open>The version the Output Writer writes\<close>

lemma script_done:
  assumes run: "script X environ a fs = (Done, fs')" and real: "\<not> arg_test_only a"
  shows "\<exists>v tag fs1.
           calculate_version_and_tag (latest_tag X) (cfg_version (startup environ a)) = Inr (v, tag) \<and>
           install X (calculate_artifact_url v tag (machine X) (system X))
             (cfg_install_dir (startup environ a)) fs = (None, fs1) \<and>
           write_variables (open_refused X) (Some (cfg_version (startup environ a)))
             (cfg_install_dir (startup environ a)) (cfg_output_file (startup environ a))
             (cfg_env_file (startup environ a)) fs1 = (None, fs')"
  using assms
  by (auto simp: script_def main_def Let_def split: sum.splits prod.splits option.splits)

text \<open>
  C10, as stated, at a call with the global \<open>version\<close> unbound and no file to write: both
  asserted paths are there, and the writer returns without any \<open>NameError\<close>.
\<close>

theorem write_variables_unbound_returns:
  "write_variables (\<lambda>path. False) None ''D'' None None
     [''D/bin/clang'' \<mapsto> File ''elf'', ''D/share/wasi-sysroot'' \<mapsto> Dir] =
   (None, [''D/bin/clang'' \<mapsto> File ''elf'', ''D/share/wasi-sysroot'' \<mapsto> Dir]) \<and>
   fst (write_variables (\<lambda>path. False) None ''D'' None None
     [''D/bin/clang'' \<mapsto> File ''elf'', ''D/share/wasi-sysroot'' \<mapsto> Dir]) \<noteq>
     Some (NameError ''version'')"
  by (simp add: write_variables_def isfile_def isdir_def)

text \<open>
  C10, amended. A run of the script that completes resolved the configured version (the
  value of \<open>INPUT_VERSION\<close> or of the flag) to a pair whose version went into the URL of
  the download, and wrote the configured version itself, not the resolved one, into the
  lines of both files. A call of \<open>write_variables\<close> with the global unbound does one of
  these. When \<open>bin/clang\<close> is not a file it raises the assertion on clang, and when clang
  is there and \<open>share/wasi-sysroot\<close> is not a directory the assertion on the sysroot,
  writing nothing. When both are there: with an output file that is given and not empty,
  it raises \<open>NameError\<close> after the first line of that file when \<open>open\<close> succeeds on it,
  and the error of \<open>open\<close> when it does not; with no output file (none given or empty)
  and an environment file that is given and not empty, the same on that file; and with
  neither file it returns and changes nothing.
\<close>

theorem written_version_is_global:
  "(\<not> arg_test_only a \<and> script X environ a fs = (Done, fs') \<longrightarrow>
      (\<exists>v tag fs1.
          calculate_version_and_tag (latest_tag X)
            (getenv environ ''INPUT_VERSION'' (arg_version a)) = Inr (v, tag) \<and>
          install X (calculate_artifact_url v tag (machine X) (system X))
            (cfg_install_dir (startup environ a)) fs = (None, fs1) \<and>
          fs' = appended (cfg_env_file (startup environ a))
                  (env_lines (cfg_install_dir (startup environ a))
                     (getenv environ ''INPUT_VERSION'' (arg_version a)))
                  (appended (cfg_output_file (startup environ a))
                     (output_lines (cfg_install_dir (startup environ a))
                        (getenv environ ''INPUT_VERSION'' (arg_version a)))
                     fs1))) \<and>
   (isfile disk (d @ ''/bin/clang'') \<and> isdir disk (d @ ''/share/wasi-sysroot'') \<and>
    out = Some p \<and> p \<noteq> [] \<and> opens r disk p \<longrightarrow>
      write_variables r None d out env disk =
        (Some (NameError ''version''),
         disk(p \<mapsto> File (content disk p @ ''wasi-sdk-path='' @ d @ ''\<newline>'')))) \<and>
   (isfile disk (d @ ''/bin/clang'') \<and> isdir disk (d @ ''/share/wasi-sysroot'') \<and>
    (out = None \<or> out = Some []) \<and> env = Some q \<and> q \<noteq> [] \<and> opens r disk q \<longrightarrow>
      write_variables r None d out env disk =
        (Some (NameError ''version''),
         disk(q \<mapsto> File (content disk q @ ''WASI_SDK_PATH='' @ d @ ''\<newline>'')))) \<and>
   (isfile disk (d @ ''/bin/clang'') \<and> isdir disk (d @ ''/share/wasi-sysroot'') \<and>
    out = Some p \<and> p \<noteq> [] \<and> \<not> opens r disk p \<longrightarrow>
      write_variables r None d out env disk = (Some OSError, disk)) \<and>
   (isfile disk (d @ ''/bin/clang'') \<and> isdir disk (d @ ''/share/wasi-sysroot'') \<and>
    (out = None \<or> out = Some []) \<and> env = Some q \<and> q \<noteq> [] \<and> \<not> opens r disk q \<longrightarrow>
      write_variables r None d out env disk = (Some OSError, disk)) \<and>
   (isfile disk (d @ ''/bin/clang'') \<and> isdir disk (d @ ''/share/wasi-sysroot'') \<and>
    (out = None \<or> out = Some []) \<and> (env = None \<or> env = Some []) \<longrightarrow>
      write_variables r None d out env disk = (None, disk)) \<and>
   (\<not> isfile disk (d @ ''/bin/clang'') \<longrightarrow>
      write_variables r None d out env disk =
        (Some (AssertionError (''clang not found at '' @ d @ ''/bin/clang'')), disk)) \<and>
   (isfile disk (d @ ''/bin/clang'') \<and> \<not> isdir disk (d @ ''/share/wasi-sysroot'') \<longrightarrow>
      write_variables r None d out env disk =
        (Some (AssertionError (''sysroot not found at '' @ d @ ''/share/wasi-sysroot'')), disk))"
proof (intro conjI impI)
  assume run: "\<not> arg_test_only a \<and> script X environ a fs = (Done, fs')"
  let ?raw = "getenv environ ''INPUT_VERSION'' (arg_version a)"
  let ?c = "startup environ a"
  have raw: "cfg_version ?c = ?raw"
    by (rule startup_fields(1))
  obtain v tag fs1 where
    resolved: "calculate_version_and_tag (latest_tag X) ?raw = Inr (v, tag)" and
    installed: "install X (calculate_artifact_url v tag (machine X) (system X))
                  (cfg_install_dir ?c) fs = (None, fs1)" and
    written: "write_variables (open_refused X) (Some ?raw) (cfg_install_dir ?c)
                (cfg_output_file ?c) (cfg_env_file ?c) fs1 = (None, fs')"
    using script_done [of X environ a fs fs'] run unfolding raw by blast
  show "\<exists>v tag fs1.
          calculate_version_and_tag (latest_tag X) ?raw = Inr (v, tag) \<and>
          install X (calculate_artifact_url v tag (machine X) (system X))
            (cfg_install_dir ?c) fs = (None, fs1) \<and>
          fs' = appended (cfg_env_file ?c) (env_lines (cfg_install_dir ?c) ?raw)
                  (appended (cfg_output_file ?c) (output_lines (cfg_install_dir ?c) ?raw) fs1)"
    using resolved installed write_variables_success [OF written] by blast
next
  assume "isfile disk (d @ ''/bin/clang'') \<and> isdir disk (d @ ''/share/wasi-sysroot'') \<and>
    out = Some p \<and> p \<noteq> [] \<and> opens r disk p"
  then show "write_variables r None d out env disk =
        (Some (NameError ''version''),
         disk(p \<mapsto> File (content disk p @ ''wasi-sdk-path='' @ d @ ''\<newline>'')))"
    using write_variables_unbound_output [of disk d out p r env] by simp
next
  assume "isfile disk (d @ ''/bin/clang'') \<and> isdir disk (d @ ''/share/wasi-sysroot'') \<and>
    (out = None \<or> out = Some []) \<and> env = Some q \<and> q \<noteq> [] \<and> opens r disk q"
  then show "write_variables r None d out env disk =
        (Some (NameError ''version''),
         disk(q \<mapsto> File (content disk q @ ''WASI_SDK_PATH='' @ d @ ''\<newline>'')))"
    using write_variables_unbound_env [of disk d out env q r] by simp
next
  assume "isfile disk (d @ ''/bin/clang'') \<and> isdir disk (d @ ''/share/wasi-sysroot'') \<and>
    out = Some p \<and> p \<noteq> [] \<and> \<not> opens r disk p"
  then show "write_variables r None d out env disk = (Some OSError, disk)"
    using write_variables_output_refused [of disk d out p r None env] by simp
next
  assume "isfile disk (d @ ''/bin/clang'') \<and> isdir disk (d @ ''/share/wasi-sysroot'') \<and>
    (out = None \<or> out = Some []) \<and> env = Some q \<and> q \<noteq> [] \<and> \<not> opens r disk q"
  then show "write_variables r None d out env disk = (Some OSError, disk)"
    using write_variables_env_refused [of disk d out env q r None] by simp
next
  assume "isfile disk (d @ ''/bin/clang'') \<and> isdir disk (d @ ''/share/wasi-sysroot'') \<and>
    (out = None \<or> out = Some []) \<and> (env = None \<or> env = Some [])"
  then show "write_variables r None d out env disk = (None, disk)"
    using write_variables_unbound_nothing [of disk d out env r] by simp
next
  assume "\<not> isfile disk (d @ ''/bin/clang'')"
  then show "write_variables r None d out env disk =
        (Some (AssertionError (''clang not found at '' @ d @ ''/bin/clang'')), disk)"
    by (simp add: write_variables_def)
next
  assume "isfile disk (d @ ''/bin/clang'') \<and> \<not> isdir disk (d @ ''/share/wasi-sysroot'')"
  then show "write_variables r None d out env disk =
        (Some (AssertionError (''sysroot not found at '' @ d @ ''/share/wasi-sysroot'')), disk)"
    by (simp add: write_variables_def)
qed

theorem written_version_is_global_witness:
  "(\<exists>v tag fs1.
      calculate_version_and_tag (latest_tag (example_externals []))
        (getenv [''INPUT_VERSION'' \<mapsto> ''25''] ''INPUT_VERSION''
           (arg_version (default_args\<lparr>arg_output_file := Some ''out''\<rparr>))) = Inr (v, tag) \<and>
      install (example_externals [])
        (calculate_artifact_url v tag (machine (example_externals []))
           (system (example_externals [])))
        (cfg_install_dir (startup [''INPUT_VERSION'' \<mapsto> ''25'']
           (default_args\<lparr>arg_output_file := Some ''out''\<rparr>))) Map.empty = (None, fs1) \<and>
      snd (script (example_externals []) [''INPUT_VERSION'' \<mapsto> ''25'']
             (default_args\<lparr>arg_output_file := Some ''out''\<rparr>) Map.empty) =
        appended None (env_lines ''.'' ''25'') (appended (Some ''out'') (output_lines ''.'' ''25'') fs1)) \<and>
   calculate_version_and_tag (latest_tag (example_externals [])) ''25'' =
     Inr (''25.0'', ''wasi-sdk-25'') \<and>
   snd (script (example_externals []) [''INPUT_VERSION'' \<mapsto> ''25'']
          (default_args\<lparr>arg_output_file := Some ''out''\<rparr>) Map.empty) ''out'' =
     Some (File ''wasi-sdk-path=.\<newline>wasi-sdk-version=25\<newline>clang-path=./bin/clang\<newline>sysroot-path=./share/wasi-sysroot\<newline>'') \<and>
   write_variables (\<lambda>path. False) None ''D'' (Some ''out'') (Some ''env'')
       [''D/bin/clang'' \<mapsto> File ''elf'', ''D/share/wasi-sysroot'' \<mapsto> Dir] =
     (Some (NameError ''version''),
      [''D/bin/clang'' \<mapsto> File ''elf'', ''D/share/wasi-sysroot'' \<mapsto> Dir,
       ''out'' \<mapsto> File ''wasi-sdk-path=D\<newline>'']) \<and>
   write_variables (\<lambda>path. False) None ''D'' None (Some ''env'')
       [''D/bin/clang'' \<mapsto> File ''elf'', ''D/share/wasi-sysroot'' \<mapsto> Dir] =
     (Some (NameError ''version''),
      [''D/bin/clang'' \<mapsto> File ''elf'', ''D/share/wasi-sysroot'' \<mapsto> Dir,
       ''env'' \<mapsto> File ''WASI_SDK_PATH=D\<newline>'']) \<and>
   write_variables (\<lambda>path. False) None ''D'' (Some ''nodir/out'') (Some ''env'')
       [''D/bin/clang'' \<mapsto> File ''elf'', ''D/share/wasi-sysroot'' \<mapsto> Dir] =
     (Some OSError, [''D/bin/clang'' \<mapsto> File ''elf'', ''D/share/wasi-sysroot'' \<mapsto> Dir]) \<and>
   write_variables (\<lambda>path. False) None ''D'' (Some []) (Some ''nodir/env'')
       [''D/bin/clang'' \<mapsto> File ''elf'', ''D/share/wasi-sysroot'' \<mapsto> Dir] =
     (Some OSError, [''D/bin/clang'' \<mapsto> File ''elf'', ''D/share/wasi-sysroot'' \<mapsto> Dir]) \<and>
   write_variables (\<lambda>path. False) None ''D'' (Some []) None
       [''D/bin/clang'' \<mapsto> File ''elf'', ''D/share/wasi-sysroot'' \<mapsto> Dir] =
     (None, [''D/bin/clang'' \<mapsto> File ''elf'', ''D/share/wasi-sysroot'' \<mapsto> Dir]) \<and>
   write_variables (\<lambda>path. False) None ''D'' (Some ''out'') None
       [''D/share/wasi-sysroot'' \<mapsto> Dir] =
     (Some (AssertionError ''clang not found at D/bin/clang''), [''D/share/wasi-sysroot'' \<mapsto> Dir]) \<and>
   write_variables (\<lambda>path. False) None ''D'' (Some ''out'') None
       [''D/bin/clang'' \<mapsto> File ''elf''] =
     (Some (AssertionError ''sysroot not found at D/share/wasi-sysroot''),
      [''D/bin/clang'' \<mapsto> File ''elf''])"
proof -
  let ?X = "example_externals []"
  let ?E = "[''INPUT_VERSION'' \<mapsto> ''25'']"
  let ?A = "default_args\<lparr>arg_output_file := Some ''out''\<rparr>"
  let ?r = "\<lambda>path :: string. False"
  let ?fs = "[''D/bin/clang'' \<mapsto> File ''elf'', ''D/share/wasi-sysroot'' \<mapsto> Dir]"
  let ?noclang = "[''D/share/wasi-sysroot'' \<mapsto> Dir]"
  let ?nosysroot = "[''D/bin/clang'' \<mapsto> File ''elf'']"
  have "fst (script ?X ?E ?A Map.empty) = Done"
    by code_simp
  then have run: "\<not> arg_test_only ?A \<and>
      script ?X ?E ?A Map.empty = (Done, snd (script ?X ?E ?A Map.empty))"
    by (simp add: default_args_def prod_eq_iff)
  have cfg: "cfg_install_dir (startup ?E ?A) = ''.''" "cfg_output_file (startup ?E ?A) = Some ''out''"
    "cfg_env_file (startup ?E ?A) = None" "getenv ?E ''INPUT_VERSION'' (arg_version ?A) = ''25''"
    by (simp_all add: startup_fields getenv_def getenv_optional_def default_args_def lower_false)
  have files: "isfile ?fs (''D'' @ ''/bin/clang'')" "isdir ?fs (''D'' @ ''/share/wasi-sysroot'')"
    by (simp_all add: isfile_def isdir_def)
  have noclang: "\<not> isfile ?noclang (''D'' @ ''/bin/clang'')"
    by (simp add: isfile_def)
  have nosysroot: "isfile ?nosysroot (''D'' @ ''/bin/clang'') \<and>
                   \<not> isdir ?nosysroot (''D'' @ ''/share/wasi-sysroot'')"
    by (simp add: isfile_def isdir_def)
  have opens: "opens ?r ?fs ''out''" "opens ?r ?fs ''env''"
    "\<not> opens ?r ?fs ''nodir/out''" "\<not> opens ?r ?fs ''nodir/env''"
    by (simp_all add: opens_def open_append_def basename_def dirname_def rstrip_def isdir_def)
  have resolved: "calculate_version_and_tag (latest_tag ?X) ''25'' = Inr (''25.0'', ''wasi-sdk-25'')"
    by (simp add: calculate_version_and_tag_def rstrip_def)
  have out: "snd (script ?X ?E ?A Map.empty) ''out'' =
     Some (File ''wasi-sdk-path=.\<newline>wasi-sdk-version=25\<newline>clang-path=./bin/clang\<newline>sysroot-path=./share/wasi-sysroot\<newline>'')"
    by code_simp
  have c1: "\<exists>v tag fs1.
      calculate_version_and_tag (latest_tag ?X) (getenv ?E ''INPUT_VERSION'' (arg_version ?A)) =
        Inr (v, tag) \<and>
      install ?X (calculate_artifact_url v tag (machine ?X) (system ?X))
        (cfg_install_dir (startup ?E ?A)) Map.empty = (None, fs1) \<and>
      snd (script ?X ?E ?A Map.empty) =
        appended None (env_lines ''.'' ''25'') (appended (Some ''out'') (output_lines ''.'' ''25'') fs1)"
    using written_version_is_global
            [where a = ?A and X = ?X and environ = ?E and fs = Map.empty
               and fs' = "snd (script ?X ?E ?A Map.empty)",
             THEN conjunct1, rule_format, OF run]
    unfolding cfg by blast
  have c2: "write_variables ?r None ''D'' (Some ''out'') (Some ''env'') ?fs =
              (Some (NameError ''version''), ?fs(''out'' \<mapsto> File ''wasi-sdk-path=D\<newline>''))"
    using written_version_is_global
            [where disk = ?fs and d = "''D''" and out = "Some ''out''" and p = "''out''"
               and r = ?r and env = "Some ''env''",
             THEN conjunct2, THEN conjunct1]
          files opens
    by (simp add: content_def)
  have c3: "write_variables ?r None ''D'' None (Some ''env'') ?fs =
              (Some (NameError ''version''), ?fs(''env'' \<mapsto> File ''WASI_SDK_PATH=D\<newline>''))"
    using written_version_is_global
            [where disk = ?fs and d = "''D''" and out = None and q = "''env''"
               and r = ?r and env = "Some ''env''",
             THEN conjunct2, THEN conjunct2, THEN conjunct1]
          files opens
    by (simp add: content_def)
  have c4: "write_variables ?r None ''D'' (Some ''nodir/out'') (Some ''env'') ?fs = (Some OSError, ?fs)"
    using written_version_is_global
            [where disk = ?fs and d = "''D''" and out = "Some ''nodir/out''" and p = "''nodir/out''"
               and r = ?r and env = "Some ''env''",
             THEN conjunct2, THEN conjunct2, THEN conjunct2, THEN conjunct1]
          files opens
    by simp
  have c5: "write_variables ?r None ''D'' (Some []) (Some ''nodir/env'') ?fs = (Some OSError, ?fs)"
    using written_version_is_global
            [where disk = ?fs and d = "''D''" and out = "Some []" and q = "''nodir/env''"
               and r = ?r and env = "Some ''nodir/env''",
             THEN conjunct2, THEN conjunct2, THEN conjunct2, THEN conjunct2, THEN conjunct1]
          files opens
    by simp
  have c6: "write_variables ?r None ''D'' (Some []) None ?fs = (None, ?fs)"
    using written_version_is_global
            [where disk = ?fs and d = "''D''" and out = "Some []" and r = ?r and env = None,
             THEN conjunct2, THEN conjunct2, THEN conjunct2, THEN conjunct2, THEN conjunct2,
             THEN conjunct1]
          files
    by simp
  have c7: "write_variables ?r None ''D'' (Some ''out'') None ?noclang =
              (Some (AssertionError ''clang not found at D/bin/clang''), ?noclang)"
    using written_version_is_global
            [where disk = ?noclang and d = "''D''" and out = "Some ''out''" and r = ?r and env = None,
             THEN conjunct2, THEN conjunct2, THEN conjunct2, THEN conjunct2, THEN conjunct2,
             THEN conjunct2, THEN conjunct1]
          noclang
    by simp
  have c8: "write_variables ?r None ''D'' (Some ''out'') None ?nosysroot =
              (Some (AssertionError ''sysroot not found at D/share/wasi-sysroot''), ?nosysroot)"
    using written_version_is_global
            [where disk = ?nosysroot and d = "''D''" and out = "Some ''out''" and r = ?r
               and env = None,
             THEN conjunct2, THEN conjunct2, THEN conjunct2, THEN conjunct2, THEN conjunct2,
             THEN conjunct2, THEN conjunct2]
          nosysroot
    by simp
  show ?thesis
    using c1 resolved out c2 c3 c4 c5 c6 c7 c8 by blast
qed

end
